theory Spec2Isabelle
  imports Main "HOL-Library.Sublist"
begin

section \<open>Exceptions\<close>

text \<open>
  The exception classes the three modules raise or let through.  \<open>JSONDecodeError\<close> is what
  \<^verbatim>\<open>response.json()\<close> raises on a body that is not JSON; in Python it is a subclass of
  \<open>ValueError\<close>.  \<open>YNABClientError\<close> is the class of \<^verbatim>\<open>ynab_client.py\<close>, line 14.
  \<open>UnicodeEncodeError\<close> (a subclass of \<open>ValueError\<close>) and \<open>InvalidURL\<close> (a subclass of
  \<open>Exception\<close> only) are what \<^verbatim>\<open>httpx.Client(...)\<close> raises at construction for a header
  value that is not ASCII and for a base URL it cannot parse.
\<close>

datatype exn =
    ValueError string
  | JSONDecodeError string
  | UnicodeEncodeError string
  | KeyError string
  | YNABClientError string
  | InvalidURL string

text \<open>\<^verbatim>\<open>isinstance(e, ValueError)\<close>.\<close>

fun is_ValueError :: "exn \<Rightarrow> bool" where
  "is_ValueError (ValueError m) = True"
| "is_ValueError (JSONDecodeError m) = True"
| "is_ValueError (UnicodeEncodeError m) = True"
| "is_ValueError (KeyError k) = False"
| "is_ValueError (YNABClientError m) = False"
| "is_ValueError (InvalidURL m) = False"

text \<open>\<^verbatim>\<open>isinstance(e, YNABClientError)\<close>.\<close>

fun is_YNABClientError :: "exn \<Rightarrow> bool" where
  "is_YNABClientError (YNABClientError m) = True"
| "is_YNABClientError (ValueError m) = False"
| "is_YNABClientError (JSONDecodeError m) = False"
| "is_YNABClientError (UnicodeEncodeError m) = False"
| "is_YNABClientError (KeyError k) = False"
| "is_YNABClientError (InvalidURL m) = False"

text \<open>
  \<^verbatim>\<open>str(e)\<close>: the message, and for a \<open>KeyError\<close> the \<open>repr\<close> of the missing key (the
  keys looked up by the dispatcher are the parameter names, which \<open>repr\<close> puts between
  single quotes).
\<close>

fun str_exn :: "exn \<Rightarrow> string" where
  "str_exn (ValueError m) = m"
| "str_exn (JSONDecodeError m) = m"
| "str_exn (UnicodeEncodeError m) = m"
| "str_exn (KeyError k) = [CHR 0x27] @ k @ [CHR 0x27]"
| "str_exn (YNABClientError m) = m"
| "str_exn (InvalidURL m) = m"

section \<open>Configuration (config.py)\<close>

record Config =
  ynab_token :: string
  ynab_base_url :: string

text \<open>\<^verbatim>\<open>os.environ\<close>: a mapping from variable names to values.\<close>

type_synonym environ = "string \<rightharpoonup> string"

definition token_required_message :: string where
  "token_required_message =
     ''YNAB_TOKEN environment variable is required. '' @
     ''Please set it to your YNAB personal access token.''"

text \<open>
  \<^verbatim>\<open>Config.from_env\<close>: \<^verbatim>\<open>not ynab_token\<close> holds for \<open>None\<close> (variable unset) and for the
  empty string.
\<close>

definition from_env :: "environ \<Rightarrow> exn + Config" where
  "from_env env =
     (case env ''YNAB_TOKEN'' of
        None \<Rightarrow> Inl (ValueError token_required_message)
      | Some tok \<Rightarrow>
          if tok = [] then Inl (ValueError token_required_message)
          else Inr \<lparr> ynab_token = tok,
                     ynab_base_url =
                       (case env ''YNAB_BASE_URL'' of
                          None \<Rightarrow> ''https://api.ynab.com/v1''
                        | Some u \<Rightarrow> u) \<rparr>)"

definition get_config :: "environ \<Rightarrow> exn + Config" where
  "get_config env = from_env env"

section \<open>The HTTP session and the upstream\<close>

text \<open>
  What \<^verbatim>\<open>YNABClient.__init__\<close> passes to \<^verbatim>\<open>httpx.Client\<close>: the base URL, the header
  dictionary (an association list, in the order written) and the timeout in seconds.
\<close>

record http_client =
  base_url :: string
  headers :: "(string \<times> string) list"
  timeout :: nat

record YNABClient =
  config :: Config
  client :: http_client

text \<open>
  \<^verbatim>\<open>httpx.Client(base_url=..., headers=..., timeout=...)\<close> can raise: it parses the base URL
  (\<open>InvalidURL\<close>) and encodes the header values as ASCII (\<open>UnicodeEncodeError\<close>).  The
  library is not part of the repository, so its verdict on a base URL and a header
  dictionary is a parameter: \<open>None\<close> when it builds the session, or the exception it raises.
\<close>

type_synonym client_check = "string \<Rightarrow> (string \<times> string) list \<Rightarrow> exn option"

definition httpx_Client ::
  "client_check \<Rightarrow> string \<Rightarrow> (string \<times> string) list \<Rightarrow> nat \<Rightarrow> exn + http_client" where
  "httpx_Client refuses url hdrs t =
     (case refuses url hdrs of
        Some e \<Rightarrow> Inl e
      | None \<Rightarrow> Inr \<lparr> base_url = url, headers = hdrs, timeout = t \<rparr>)"

text \<open>
  \<^verbatim>\<open>YNABClient.__init__\<close>: an exception of \<^verbatim>\<open>httpx.Client(...)\<close> leaves the constructor as it
  is; otherwise the object holds the configuration and the session.
\<close>

definition YNABClient_init :: "client_check \<Rightarrow> Config \<Rightarrow> exn + YNABClient" where
  "YNABClient_init refuses cfg =
     (case httpx_Client refuses (ynab_base_url cfg)
             [(''Authorization'', ''Bearer '' @ ynab_token cfg),
              (''Content-Type'', ''application/json'')]
             30 of
        Inl e \<Rightarrow> Inl e
      | Inr h \<Rightarrow> Inr \<lparr> config = cfg, client = h \<rparr>)"

text \<open>
  The client of a configuration: the object \<^verbatim>\<open>YNABClient.__init__\<close> has built once
  \<^verbatim>\<open>httpx.Client(...)\<close> has returned (see \<open>YNABClient_init_Inr\<close> below).
\<close>

definition new_client :: "Config \<Rightarrow> YNABClient" where
  "new_client cfg =
     \<lparr> config = cfg,
       client = \<lparr> base_url = ynab_base_url cfg,
                  headers = [(''Authorization'', ''Bearer '' @ ynab_token cfg),
                             (''Content-Type'', ''application/json'')],
                  timeout = 30 \<rparr> \<rparr>"

text \<open>
  An outbound request as the session issues it: the method, the endpoint string handed to
  the session, and the session's own base URL, headers and timeout.
\<close>

record request =
  req_method :: string
  req_endpoint :: string
  req_base_url :: string
  req_headers :: "(string \<times> string) list"
  req_timeout :: nat

text \<open>\<^verbatim>\<open>self._client.get(endpoint)\<close>.\<close>

definition client_get :: "http_client \<Rightarrow> string \<Rightarrow> request" where
  "client_get h endpoint =
     \<lparr> req_method = ''GET'',
       req_endpoint = endpoint,
       req_base_url = base_url h,
       req_headers = headers h,
       req_timeout = timeout h \<rparr>"

text \<open>
  What comes back from the session: a response (status code, body text, and the body parsed
  as JSON, or the decoder's message when it is not JSON), or a transport failure
  (\<^verbatim>\<open>httpx.RequestError\<close>: DNS, connection refused, timeout) with its description.
  The JSON value is kept abstract (\<open>'j\<close>): the code never looks inside it.
\<close>

datatype 'j http_outcome =
    Response nat string "string + 'j"
  | RequestError string

type_synonym 'j upstream = "request \<Rightarrow> 'j http_outcome"

text \<open>The network as state: the requests issued so far, oldest first.\<close>

type_synonym net = "request list"

text \<open>\<^verbatim>\<open>response.raise_for_status()\<close> raises unless the status is 2xx.\<close>

definition is_success :: "nat \<Rightarrow> bool" where
  "is_success status \<longleftrightarrow> 200 \<le> status \<and> status < 300"

text \<open>Decimal rendering of a status code, as an f-string formats an \<open>int\<close>.\<close>

definition digit_char :: "nat \<Rightarrow> char" where
  "digit_char d = char_of (48 + d)"

fun str_nat :: "nat \<Rightarrow> string" where
  "str_nat n = (if n < 10 then [digit_char n] else str_nat (n div 10) @ [digit_char (n mod 10)])"

declare str_nat.simps [simp del]

section \<open>The gateway client (ynab\_client.py)\<close>

text \<open>
  \<^verbatim>\<open>_make_request\<close>: one GET, recorded in the network state; an HTTP status error and a
  transport failure become \<open>YNABClientError\<close>; a decoding failure of \<^verbatim>\<open>response.json()\<close>
  is not caught here and leaves as it is.
\<close>

definition make_request ::
  "'j upstream \<Rightarrow> YNABClient \<Rightarrow> string \<Rightarrow> net \<Rightarrow> (exn + 'j) \<times> net" where
  "make_request up c endpoint n =
     (let req = client_get (client c) endpoint;
          n' = n @ [req]
      in case up req of
           RequestError d \<Rightarrow>
             (Inl (YNABClientError (''YNAB API request failed: '' @ d)), n')
         | Response status body js \<Rightarrow>
             if \<not> is_success status then
               (Inl (YNABClientError
                  (''YNAB API request failed with status '' @ str_nat status @ '': '' @ body)), n')
             else (case js of
                     Inl m \<Rightarrow> (Inl (JSONDecodeError m), n')
                   | Inr v \<Rightarrow> (Inr v, n')))"

definition get_budgets :: "'j upstream \<Rightarrow> YNABClient \<Rightarrow> net \<Rightarrow> (exn + 'j) \<times> net" where
  "get_budgets up c = make_request up c ''/budgets''"

definition get_budget :: "'j upstream \<Rightarrow> YNABClient \<Rightarrow> string \<Rightarrow> net \<Rightarrow> (exn + 'j) \<times> net" where
  "get_budget up c budget_id = make_request up c (''/budgets/'' @ budget_id)"

definition get_budget_settings ::
  "'j upstream \<Rightarrow> YNABClient \<Rightarrow> string \<Rightarrow> net \<Rightarrow> (exn + 'j) \<times> net" where
  "get_budget_settings up c budget_id =
     make_request up c (''/budgets/'' @ budget_id @ ''/settings'')"

definition get_accounts :: "'j upstream \<Rightarrow> YNABClient \<Rightarrow> string \<Rightarrow> net \<Rightarrow> (exn + 'j) \<times> net" where
  "get_accounts up c budget_id = make_request up c (''/budgets/'' @ budget_id @ ''/accounts'')"

definition get_account ::
  "'j upstream \<Rightarrow> YNABClient \<Rightarrow> string \<Rightarrow> string \<Rightarrow> net \<Rightarrow> (exn + 'j) \<times> net" where
  "get_account up c budget_id account_id =
     make_request up c (''/budgets/'' @ budget_id @ ''/accounts/'' @ account_id)"

definition get_categories ::
  "'j upstream \<Rightarrow> YNABClient \<Rightarrow> string \<Rightarrow> net \<Rightarrow> (exn + 'j) \<times> net" where
  "get_categories up c budget_id =
     make_request up c (''/budgets/'' @ budget_id @ ''/categories'')"

definition get_category ::
  "'j upstream \<Rightarrow> YNABClient \<Rightarrow> string \<Rightarrow> string \<Rightarrow> net \<Rightarrow> (exn + 'j) \<times> net" where
  "get_category up c budget_id category_id =
     make_request up c (''/budgets/'' @ budget_id @ ''/categories/'' @ category_id)"

definition get_payees :: "'j upstream \<Rightarrow> YNABClient \<Rightarrow> string \<Rightarrow> net \<Rightarrow> (exn + 'j) \<times> net" where
  "get_payees up c budget_id = make_request up c (''/budgets/'' @ budget_id @ ''/payees'')"

definition get_payee ::
  "'j upstream \<Rightarrow> YNABClient \<Rightarrow> string \<Rightarrow> string \<Rightarrow> net \<Rightarrow> (exn + 'j) \<times> net" where
  "get_payee up c budget_id payee_id =
     make_request up c (''/budgets/'' @ budget_id @ ''/payees/'' @ payee_id)"

text \<open>\<^verbatim>\<open>sep.join(xs)\<close>.\<close>

fun join :: "string \<Rightarrow> string list \<Rightarrow> string" where
  "join sep [] = []"
| "join sep [x] = x"
| "join sep (x # y # ys) = x @ sep @ join sep (y # ys)"

text \<open>
  The \<^verbatim>\<open>params\<close> dictionary of \<^verbatim>\<open>get_transactions\<close>, in insertion order.  \<^verbatim>\<open>if since_date:\<close>
  is Python truthiness: false for \<open>None\<close> and for the empty string.
\<close>

definition truthy :: "string option \<Rightarrow> bool" where
  "truthy v = (case v of None \<Rightarrow> False | Some s \<Rightarrow> s \<noteq> [])"

definition str_of :: "string option \<Rightarrow> string" where
  "str_of v = (case v of None \<Rightarrow> ''None'' | Some s \<Rightarrow> s)"

definition transactions_params :: "string option \<Rightarrow> string option \<Rightarrow> (string \<times> string) list" where
  "transactions_params since_date type_filter =
     (let params = [];
          params = (if truthy since_date then params @ [(''since_date'', str_of since_date)]
                    else params);
          params = (if truthy type_filter then params @ [(''type'', str_of type_filter)]
                    else params)
      in params)"

definition transactions_endpoint :: "string \<Rightarrow> string option \<Rightarrow> string option \<Rightarrow> string" where
  "transactions_endpoint budget_id since_date type_filter =
     (let params = transactions_params since_date type_filter;
          endpoint = ''/budgets/'' @ budget_id @ ''/transactions''
      in if params \<noteq> [] then
           endpoint @ ''?'' @ join ''&'' (map (\<lambda>(k, v). k @ ''='' @ v) params)
         else endpoint)"

definition get_transactions ::
  "'j upstream \<Rightarrow> YNABClient \<Rightarrow> string \<Rightarrow> string option \<Rightarrow> string option \<Rightarrow> net
     \<Rightarrow> (exn + 'j) \<times> net" where
  "get_transactions up c budget_id since_date type_filter =
     make_request up c (transactions_endpoint budget_id since_date type_filter)"

definition get_transaction ::
  "'j upstream \<Rightarrow> YNABClient \<Rightarrow> string \<Rightarrow> string \<Rightarrow> net \<Rightarrow> (exn + 'j) \<times> net" where
  "get_transaction up c budget_id transaction_id =
     make_request up c (''/budgets/'' @ budget_id @ ''/transactions/'' @ transaction_id)"

text \<open>
  The three by-resource transaction methods share one shape: a path, and
  \<^verbatim>\<open>?since_date=...\<close> appended when \<^verbatim>\<open>since_date\<close> is truthy.
\<close>

definition with_since_date :: "string \<Rightarrow> string option \<Rightarrow> string" where
  "with_since_date endpoint since_date =
     (if truthy since_date then endpoint @ ''?since_date='' @ str_of since_date else endpoint)"

definition get_transactions_by_account ::
  "'j upstream \<Rightarrow> YNABClient \<Rightarrow> string \<Rightarrow> string \<Rightarrow> string option \<Rightarrow> net
     \<Rightarrow> (exn + 'j) \<times> net" where
  "get_transactions_by_account up c budget_id account_id since_date =
     make_request up c
       (with_since_date (''/budgets/'' @ budget_id @ ''/accounts/'' @ account_id @ ''/transactions'')
          since_date)"

definition get_transactions_by_category ::
  "'j upstream \<Rightarrow> YNABClient \<Rightarrow> string \<Rightarrow> string \<Rightarrow> string option \<Rightarrow> net
     \<Rightarrow> (exn + 'j) \<times> net" where
  "get_transactions_by_category up c budget_id category_id since_date =
     make_request up c
       (with_since_date
          (''/budgets/'' @ budget_id @ ''/categories/'' @ category_id @ ''/transactions'')
          since_date)"

definition get_transactions_by_payee ::
  "'j upstream \<Rightarrow> YNABClient \<Rightarrow> string \<Rightarrow> string \<Rightarrow> string option \<Rightarrow> net
     \<Rightarrow> (exn + 'j) \<times> net" where
  "get_transactions_by_payee up c budget_id payee_id since_date =
     make_request up c
       (with_since_date (''/budgets/'' @ budget_id @ ''/payees/'' @ payee_id @ ''/transactions'')
          since_date)"

definition get_months :: "'j upstream \<Rightarrow> YNABClient \<Rightarrow> string \<Rightarrow> net \<Rightarrow> (exn + 'j) \<times> net" where
  "get_months up c budget_id = make_request up c (''/budgets/'' @ budget_id @ ''/months'')"

definition get_month ::
  "'j upstream \<Rightarrow> YNABClient \<Rightarrow> string \<Rightarrow> string \<Rightarrow> net \<Rightarrow> (exn + 'j) \<times> net" where
  "get_month up c budget_id month =
     make_request up c (''/budgets/'' @ budget_id @ ''/months/'' @ month)"

definition get_scheduled_transactions ::
  "'j upstream \<Rightarrow> YNABClient \<Rightarrow> string \<Rightarrow> net \<Rightarrow> (exn + 'j) \<times> net" where
  "get_scheduled_transactions up c budget_id =
     make_request up c (''/budgets/'' @ budget_id @ ''/scheduled_transactions'')"

definition get_scheduled_transaction ::
  "'j upstream \<Rightarrow> YNABClient \<Rightarrow> string \<Rightarrow> string \<Rightarrow> net \<Rightarrow> (exn + 'j) \<times> net" where
  "get_scheduled_transaction up c budget_id scheduled_transaction_id =
     make_request up c
       (''/budgets/'' @ budget_id @ ''/scheduled_transactions/'' @ scheduled_transaction_id)"

section \<open>The tool registry (main.py, list\_tools)\<close>

text \<open>
  A tool descriptor as \<^verbatim>\<open>mcp.types.Tool\<close> is built in \<^verbatim>\<open>list_tools\<close>: a name, a description
  and the input schema, itself a dictionary with the keys \<^verbatim>\<open>type\<close>, \<^verbatim>\<open>properties\<close> (one
  entry per parameter, in the order written) and \<^verbatim>\<open>required\<close>.
\<close>

record property =
  ptype :: string
  pdescription :: string
  enum :: "string list option"

record input_schema =
  stype :: string
  properties :: "(string \<times> property) list"
  required :: "string list"

record Tool =
  name :: string
  description :: string
  inputSchema :: input_schema

definition quoted :: "string \<Rightarrow> string" where
  "quoted s = [CHR 0x27] @ s @ [CHR 0x27]"

definition budget_id_property :: property where
  "budget_id_property =
     \<lparr> ptype = ''string'',
       pdescription = ''The budget ID or '' @ quoted ''last-used'',
       enum = None \<rparr>"

definition since_date_property :: property where
  "since_date_property =
     \<lparr> ptype = ''string'',
       pdescription = ''Filter transactions since this date (YYYY-MM-DD)'',
       enum = None \<rparr>"

definition id_property :: "string \<Rightarrow> property" where
  "id_property d = \<lparr> ptype = ''string'', pdescription = d, enum = None \<rparr>"

definition list_tools :: "Tool list" where
  "list_tools =
   [ \<lparr> name = ''get_budgets'',
       description = ''Get all budgets associated with the YNAB account'',
       inputSchema = \<lparr> stype = ''object'', properties = [], required = [] \<rparr> \<rparr>,
     \<lparr> name = ''get_budget'',
       description = ''Get a single budget by ID. Use '' @ quoted ''last-used'' @
                     '' for the most recently accessed budget.'',
       inputSchema = \<lparr> stype = ''object'',
                       properties = [(''budget_id'', budget_id_property)],
                       required = [''budget_id''] \<rparr> \<rparr>,
     \<lparr> name = ''get_budget_settings'',
       description = ''Get settings for a budget including currency format'',
       inputSchema = \<lparr> stype = ''object'',
                       properties = [(''budget_id'', budget_id_property)],
                       required = [''budget_id''] \<rparr> \<rparr>,
     \<lparr> name = ''get_accounts'',
       description = ''Get all accounts for a budget'',
       inputSchema = \<lparr> stype = ''object'',
                       properties = [(''budget_id'', budget_id_property)],
                       required = [''budget_id''] \<rparr> \<rparr>,
     \<lparr> name = ''get_account'',
       description = ''Get a single account by ID'',
       inputSchema = \<lparr> stype = ''object'',
                       properties = [(''budget_id'', budget_id_property),
                                     (''account_id'', id_property ''The account ID'')],
                       required = [''budget_id'', ''account_id''] \<rparr> \<rparr>,
     \<lparr> name = ''get_categories'',
       description = ''Get all categories for a budget'',
       inputSchema = \<lparr> stype = ''object'',
                       properties = [(''budget_id'', budget_id_property)],
                       required = [''budget_id''] \<rparr> \<rparr>,
     \<lparr> name = ''get_category'',
       description = ''Get a single category by ID'',
       inputSchema = \<lparr> stype = ''object'',
                       properties = [(''budget_id'', budget_id_property),
                                     (''category_id'', id_property ''The category ID'')],
                       required = [''budget_id'', ''category_id''] \<rparr> \<rparr>,
     \<lparr> name = ''get_payees'',
       description = ''Get all payees for a budget'',
       inputSchema = \<lparr> stype = ''object'',
                       properties = [(''budget_id'', budget_id_property)],
                       required = [''budget_id''] \<rparr> \<rparr>,
     \<lparr> name = ''get_payee'',
       description = ''Get a single payee by ID'',
       inputSchema = \<lparr> stype = ''object'',
                       properties = [(''budget_id'', budget_id_property),
                                     (''payee_id'', id_property ''The payee ID'')],
                       required = [''budget_id'', ''payee_id''] \<rparr> \<rparr>,
     \<lparr> name = ''get_transactions'',
       description = ''Get transactions for a budget. Optionally filter by date or type.'',
       inputSchema = \<lparr> stype = ''object'',
                       properties =
                         [(''budget_id'', budget_id_property),
                          (''since_date'', since_date_property),
                          (''type'',
                             \<lparr> ptype = ''string'',
                               pdescription = ''Filter by type: '' @ quoted ''uncategorized'' @
                                              '' or '' @ quoted ''unapproved'',
                               enum = Some [''uncategorized'', ''unapproved''] \<rparr>)],
                       required = [''budget_id''] \<rparr> \<rparr>,
     \<lparr> name = ''get_transaction'',
       description = ''Get a single transaction by ID'',
       inputSchema = \<lparr> stype = ''object'',
                       properties = [(''budget_id'', budget_id_property),
                                     (''transaction_id'', id_property ''The transaction ID'')],
                       required = [''budget_id'', ''transaction_id''] \<rparr> \<rparr>,
     \<lparr> name = ''get_transactions_by_account'',
       description = ''Get transactions for a specific account'',
       inputSchema = \<lparr> stype = ''object'',
                       properties = [(''budget_id'', budget_id_property),
                                     (''account_id'', id_property ''The account ID''),
                                     (''since_date'', since_date_property)],
                       required = [''budget_id'', ''account_id''] \<rparr> \<rparr>,
     \<lparr> name = ''get_transactions_by_category'',
       description = ''Get transactions for a specific category'',
       inputSchema = \<lparr> stype = ''object'',
                       properties = [(''budget_id'', budget_id_property),
                                     (''category_id'', id_property ''The category ID''),
                                     (''since_date'', since_date_property)],
                       required = [''budget_id'', ''category_id''] \<rparr> \<rparr>,
     \<lparr> name = ''get_transactions_by_payee'',
       description = ''Get transactions for a specific payee'',
       inputSchema = \<lparr> stype = ''object'',
                       properties = [(''budget_id'', budget_id_property),
                                     (''payee_id'', id_property ''The payee ID''),
                                     (''since_date'', since_date_property)],
                       required = [''budget_id'', ''payee_id''] \<rparr> \<rparr>,
     \<lparr> name = ''get_months'',
       description = ''Get all budget months'',
       inputSchema = \<lparr> stype = ''object'',
                       properties = [(''budget_id'', budget_id_property)],
                       required = [''budget_id''] \<rparr> \<rparr>,
     \<lparr> name = ''get_month'',
       description = ''Get a single budget month with category balances'',
       inputSchema = \<lparr> stype = ''object'',
                       properties =
                         [(''budget_id'', budget_id_property),
                          (''month'',
                             id_property ''The month in YYYY-MM-DD format (day will be ignored)'')],
                       required = [''budget_id'', ''month''] \<rparr> \<rparr>,
     \<lparr> name = ''get_scheduled_transactions'',
       description = ''Get all scheduled transactions for a budget'',
       inputSchema = \<lparr> stype = ''object'',
                       properties = [(''budget_id'', budget_id_property)],
                       required = [''budget_id''] \<rparr> \<rparr>,
     \<lparr> name = ''get_scheduled_transaction'',
       description = ''Get a single scheduled transaction by ID'',
       inputSchema = \<lparr> stype = ''object'',
                       properties =
                         [(''budget_id'', budget_id_property),
                          (''scheduled_transaction_id'',
                             id_property ''The scheduled transaction ID'')],
                       required = [''budget_id'', ''scheduled_transaction_id''] \<rparr> \<rparr> ]"

text \<open>
  The contract of a descriptor as the specification tabulates it: the name, the required
  parameters, and the optional ones (the properties not listed as required) each with its
  enumeration, when it has one.
\<close>

definition optional_params :: "input_schema \<Rightarrow> (string \<times> string list option) list" where
  "optional_params s =
     map (\<lambda>(p, d). (p, enum d)) (filter (\<lambda>(p, d). p \<notin> set (required s)) (properties s))"

definition contract :: "Tool \<Rightarrow> string \<times> string list \<times> (string \<times> string list option) list" where
  "contract t = (name t, required (inputSchema t), optional_params (inputSchema t))"

text \<open>
  The table of the specification (section 4.1), row by row: tool, required parameters,
  optional parameters.
\<close>

definition spec_tool_table :: "(string \<times> string list \<times> (string \<times> string list option) list) list" where
  "spec_tool_table =
   [ (''get_budgets'', [], []),
     (''get_budget'', [''budget_id''], []),
     (''get_budget_settings'', [''budget_id''], []),
     (''get_accounts'', [''budget_id''], []),
     (''get_account'', [''budget_id'', ''account_id''], []),
     (''get_categories'', [''budget_id''], []),
     (''get_category'', [''budget_id'', ''category_id''], []),
     (''get_payees'', [''budget_id''], []),
     (''get_payee'', [''budget_id'', ''payee_id''], []),
     (''get_transactions'', [''budget_id''],
        [(''since_date'', None), (''type'', Some [''uncategorized'', ''unapproved''])]),
     (''get_transaction'', [''budget_id'', ''transaction_id''], []),
     (''get_transactions_by_account'', [''budget_id'', ''account_id''], [(''since_date'', None)]),
     (''get_transactions_by_category'', [''budget_id'', ''category_id''], [(''since_date'', None)]),
     (''get_transactions_by_payee'', [''budget_id'', ''payee_id''], [(''since_date'', None)]),
     (''get_months'', [''budget_id''], []),
     (''get_month'', [''budget_id'', ''month''], []),
     (''get_scheduled_transactions'', [''budget_id''], []),
     (''get_scheduled_transaction'', [''budget_id'', ''scheduled_transaction_id''], []) ]"

section \<open>Dispatch (main.py)\<close>

definition get_ynab_client :: "client_check \<Rightarrow> environ \<Rightarrow> exn + YNABClient" where
  "get_ynab_client refuses env =
     (case get_config env of Inl e \<Rightarrow> Inl e | Inr cfg \<Rightarrow> YNABClient_init refuses cfg)"

text \<open>
  \<^verbatim>\<open>json.dumps(data, indent=2)\<close>: the serialiser belongs to the standard library and is a
  parameter, taking the indentation and the value.
\<close>

definition format_response :: "(nat \<Rightarrow> 'j \<Rightarrow> string) \<Rightarrow> 'j \<Rightarrow> string" where
  "format_response dumps data = dumps 2 data"

text \<open>The argument mapping of a tool call.\<close>

type_synonym arguments = "string \<rightharpoonup> string"

text \<open>
  \<^verbatim>\<open>arguments[k]\<close> followed by the rest of the call: a missing key raises \<open>KeyError\<close> at
  once, with the network untouched.  Python evaluates the arguments of a call from left to
  right, before the call.
\<close>

definition subscript ::
  "arguments \<Rightarrow> string \<Rightarrow> (string \<Rightarrow> net \<Rightarrow> (exn + 'j) \<times> net) \<Rightarrow> net \<Rightarrow> (exn + 'j) \<times> net" where
  "subscript args k f n = (case args k of None \<Rightarrow> (Inl (KeyError k), n) | Some v \<Rightarrow> f v n)"

definition execute_tool ::
  "'j upstream \<Rightarrow> YNABClient \<Rightarrow> string \<Rightarrow> arguments \<Rightarrow> net \<Rightarrow> (exn + 'j) \<times> net" where
  "execute_tool up c tool_name args n =
    (if tool_name = ''get_budgets'' then get_budgets up c n
     else if tool_name = ''get_budget'' then
       subscript args ''budget_id'' (\<lambda>b. get_budget up c b) n
     else if tool_name = ''get_budget_settings'' then
       subscript args ''budget_id'' (\<lambda>b. get_budget_settings up c b) n
     else if tool_name = ''get_accounts'' then
       subscript args ''budget_id'' (\<lambda>b. get_accounts up c b) n
     else if tool_name = ''get_account'' then
       subscript args ''budget_id'' (\<lambda>b.
         subscript args ''account_id'' (\<lambda>a. get_account up c b a)) n
     else if tool_name = ''get_categories'' then
       subscript args ''budget_id'' (\<lambda>b. get_categories up c b) n
     else if tool_name = ''get_category'' then
       subscript args ''budget_id'' (\<lambda>b.
         subscript args ''category_id'' (\<lambda>a. get_category up c b a)) n
     else if tool_name = ''get_payees'' then
       subscript args ''budget_id'' (\<lambda>b. get_payees up c b) n
     else if tool_name = ''get_payee'' then
       subscript args ''budget_id'' (\<lambda>b.
         subscript args ''payee_id'' (\<lambda>a. get_payee up c b a)) n
     else if tool_name = ''get_transactions'' then
       subscript args ''budget_id'' (\<lambda>b.
         get_transactions up c b (args ''since_date'') (args ''type'')) n
     else if tool_name = ''get_transaction'' then
       subscript args ''budget_id'' (\<lambda>b.
         subscript args ''transaction_id'' (\<lambda>a. get_transaction up c b a)) n
     else if tool_name = ''get_transactions_by_account'' then
       subscript args ''budget_id'' (\<lambda>b.
         subscript args ''account_id'' (\<lambda>a.
           get_transactions_by_account up c b a (args ''since_date''))) n
     else if tool_name = ''get_transactions_by_category'' then
       subscript args ''budget_id'' (\<lambda>b.
         subscript args ''category_id'' (\<lambda>a.
           get_transactions_by_category up c b a (args ''since_date''))) n
     else if tool_name = ''get_transactions_by_payee'' then
       subscript args ''budget_id'' (\<lambda>b.
         subscript args ''payee_id'' (\<lambda>a.
           get_transactions_by_payee up c b a (args ''since_date''))) n
     else if tool_name = ''get_months'' then
       subscript args ''budget_id'' (\<lambda>b. get_months up c b) n
     else if tool_name = ''get_month'' then
       subscript args ''budget_id'' (\<lambda>b.
         subscript args ''month'' (\<lambda>a. get_month up c b a)) n
     else if tool_name = ''get_scheduled_transactions'' then
       subscript args ''budget_id'' (\<lambda>b. get_scheduled_transactions up c b) n
     else if tool_name = ''get_scheduled_transaction'' then
       subscript args ''budget_id'' (\<lambda>b.
         subscript args ''scheduled_transaction_id'' (\<lambda>a.
           get_scheduled_transaction up c b a)) n
     else (Inl (ValueError (''Unknown tool: '' @ tool_name)), n))"

record TextContent =
  content_type :: string
  content_text :: string

text \<open>
  The three handlers of \<^verbatim>\<open>call_tool\<close>, in the order written: \<^verbatim>\<open>except YNABClientError\<close>,
  \<^verbatim>\<open>except ValueError\<close>, \<^verbatim>\<open>except Exception\<close>.
\<close>

definition handle_exn :: "exn \<Rightarrow> TextContent list" where
  "handle_exn e =
     (if is_YNABClientError e then
        [\<lparr> content_type = ''text'', content_text = ''Error: '' @ str_exn e \<rparr>]
      else if is_ValueError e then
        [\<lparr> content_type = ''text'', content_text = ''Configuration Error: '' @ str_exn e \<rparr>]
      else
        [\<lparr> content_type = ''text'', content_text = ''Error: '' @ str_exn e \<rparr>])"

text \<open>
  \<^verbatim>\<open>call_tool\<close>: the client is built from the environment inside the \<^verbatim>\<open>try\<close>, the tool is
  executed, and the result or the exception becomes the text of the reply.
\<close>

definition call_tool ::
  "client_check \<Rightarrow> environ \<Rightarrow> 'j upstream \<Rightarrow> (nat \<Rightarrow> 'j \<Rightarrow> string) \<Rightarrow> string \<Rightarrow> arguments
     \<Rightarrow> net \<Rightarrow> TextContent list \<times> net" where
  "call_tool refuses env up dumps tool_name args n =
     (case get_ynab_client refuses env of
        Inl e \<Rightarrow> (handle_exn e, n)
      | Inr c \<Rightarrow>
          (case execute_tool up c tool_name args n of
             (Inl e, n') \<Rightarrow> (handle_exn e, n')
           | (Inr result, n') \<Rightarrow>
               ([\<lparr> content_type = ''text'', content_text = format_response dumps result \<rparr>], n')))"

section \<open>The gateway methods as one family\<close>

text \<open>
  One constructor per public method of \<^verbatim>\<open>YNABClient\<close>, carrying the method's arguments;
  \<open>invoke\<close> calls the method and \<open>method_name\<close> gives its name.
\<close>

datatype call =
    GetBudgets
  | GetBudget string
  | GetBudgetSettings string
  | GetAccounts string
  | GetAccount string string
  | GetCategories string
  | GetCategory string string
  | GetPayees string
  | GetPayee string string
  | GetTransactions string "string option" "string option"
  | GetTransaction string string
  | GetTransactionsByAccount string string "string option"
  | GetTransactionsByCategory string string "string option"
  | GetTransactionsByPayee string string "string option"
  | GetMonths string
  | GetMonth string string
  | GetScheduledTransactions string
  | GetScheduledTransaction string string

fun invoke :: "'j upstream \<Rightarrow> YNABClient \<Rightarrow> call \<Rightarrow> net \<Rightarrow> (exn + 'j) \<times> net" where
  "invoke up c GetBudgets = get_budgets up c"
| "invoke up c (GetBudget b) = get_budget up c b"
| "invoke up c (GetBudgetSettings b) = get_budget_settings up c b"
| "invoke up c (GetAccounts b) = get_accounts up c b"
| "invoke up c (GetAccount b a) = get_account up c b a"
| "invoke up c (GetCategories b) = get_categories up c b"
| "invoke up c (GetCategory b a) = get_category up c b a"
| "invoke up c (GetPayees b) = get_payees up c b"
| "invoke up c (GetPayee b a) = get_payee up c b a"
| "invoke up c (GetTransactions b s t) = get_transactions up c b s t"
| "invoke up c (GetTransaction b a) = get_transaction up c b a"
| "invoke up c (GetTransactionsByAccount b a s) = get_transactions_by_account up c b a s"
| "invoke up c (GetTransactionsByCategory b a s) = get_transactions_by_category up c b a s"
| "invoke up c (GetTransactionsByPayee b a s) = get_transactions_by_payee up c b a s"
| "invoke up c (GetMonths b) = get_months up c b"
| "invoke up c (GetMonth b a) = get_month up c b a"
| "invoke up c (GetScheduledTransactions b) = get_scheduled_transactions up c b"
| "invoke up c (GetScheduledTransaction b a) = get_scheduled_transaction up c b a"

fun method_name :: "call \<Rightarrow> string" where
  "method_name GetBudgets = ''get_budgets''"
| "method_name (GetBudget b) = ''get_budget''"
| "method_name (GetBudgetSettings b) = ''get_budget_settings''"
| "method_name (GetAccounts b) = ''get_accounts''"
| "method_name (GetAccount b a) = ''get_account''"
| "method_name (GetCategories b) = ''get_categories''"
| "method_name (GetCategory b a) = ''get_category''"
| "method_name (GetPayees b) = ''get_payees''"
| "method_name (GetPayee b a) = ''get_payee''"
| "method_name (GetTransactions b s t) = ''get_transactions''"
| "method_name (GetTransaction b a) = ''get_transaction''"
| "method_name (GetTransactionsByAccount b a s) = ''get_transactions_by_account''"
| "method_name (GetTransactionsByCategory b a s) = ''get_transactions_by_category''"
| "method_name (GetTransactionsByPayee b a s) = ''get_transactions_by_payee''"
| "method_name (GetMonths b) = ''get_months''"
| "method_name (GetMonth b a) = ''get_month''"
| "method_name (GetScheduledTransactions b) = ''get_scheduled_transactions''"
| "method_name (GetScheduledTransaction b a) = ''get_scheduled_transaction''"

section \<open>Basic facts about the request primitive and the dispatcher\<close>

lemma make_request_log: "snd (make_request up c e n) = n @ [client_get (client c) e]"
  by (simp add: make_request_def Let_def split: http_outcome.splits sum.splits)

lemma make_request_fst_indep: "fst (make_request up c e n) = fst (make_request up c e n')"
  by (simp add: make_request_def Let_def split: http_outcome.splits sum.splits)

lemma make_request_not_KeyError: "fst (make_request up c e n) \<noteq> Inl (KeyError k)"
  by (simp add: make_request_def Let_def split: http_outcome.splits sum.splits)

lemmas method_defs =
  get_budgets_def get_budget_def get_budget_settings_def get_accounts_def get_account_def
  get_categories_def get_category_def get_payees_def get_payee_def get_transactions_def
  get_transaction_def get_transactions_by_account_def get_transactions_by_category_def
  get_transactions_by_payee_def get_months_def get_month_def get_scheduled_transactions_def
  get_scheduled_transaction_def

lemmas property_defs = budget_id_property_def since_date_property_def id_property_def

text \<open>A constructor that returns has built the client of its configuration.\<close>

lemma YNABClient_init_Inr: "YNABClient_init refuses cfg = Inr c \<Longrightarrow> c = new_client cfg"
  by (auto simp: YNABClient_init_def httpx_Client_def new_client_def split: option.splits)

lemma YNABClient_init_cases:
  "YNABClient_init refuses cfg =
     (case refuses (ynab_base_url cfg)
             [(''Authorization'', ''Bearer '' @ ynab_token cfg),
              (''Content-Type'', ''application/json'')] of
        Some e \<Rightarrow> Inl e
      | None \<Rightarrow> Inr (new_client cfg))"
  by (simp add: YNABClient_init_def httpx_Client_def new_client_def split: option.splits)

text \<open>Every public method is one call of the request primitive.\<close>

lemma invoke_is_request: "\<exists>e. invoke up c call = make_request up c e"
  by (cases call) (simp_all add: method_defs; rule exI; rule refl)+

lemma invoke_log: "\<exists>e. snd (invoke up c call n) = n @ [client_get (client c) e]"
  using invoke_is_request [of up c call] by (auto simp: make_request_log)

lemma invoke_fst_indep: "fst (invoke up c call n) = fst (invoke up c call n')"
proof -
  obtain e where "invoke up c call = make_request up c e"
    using invoke_is_request by blast
  then show ?thesis by (simp add: make_request_fst_indep [of up c e n n'])
qed

lemma subscript_fst_indep:
  "(\<And>v. fst (f v n) = fst (f v n')) \<Longrightarrow> fst (subscript args k f n) = fst (subscript args k f n')"
  by (simp add: subscript_def split: option.splits)

lemma method_fst_indep:
  "fst (get_budgets up c n) = fst (get_budgets up c n')"
  "fst (get_budget up c b n) = fst (get_budget up c b n')"
  "fst (get_budget_settings up c b n) = fst (get_budget_settings up c b n')"
  "fst (get_accounts up c b n) = fst (get_accounts up c b n')"
  "fst (get_account up c b a n) = fst (get_account up c b a n')"
  "fst (get_categories up c b n) = fst (get_categories up c b n')"
  "fst (get_category up c b a n) = fst (get_category up c b a n')"
  "fst (get_payees up c b n) = fst (get_payees up c b n')"
  "fst (get_payee up c b a n) = fst (get_payee up c b a n')"
  "fst (get_transactions up c b s t n) = fst (get_transactions up c b s t n')"
  "fst (get_transaction up c b a n) = fst (get_transaction up c b a n')"
  "fst (get_transactions_by_account up c b a s n) = fst (get_transactions_by_account up c b a s n')"
  "fst (get_transactions_by_category up c b a s n) = fst (get_transactions_by_category up c b a s n')"
  "fst (get_transactions_by_payee up c b a s n) = fst (get_transactions_by_payee up c b a s n')"
  "fst (get_months up c b n) = fst (get_months up c b n')"
  "fst (get_month up c b a n) = fst (get_month up c b a n')"
  "fst (get_scheduled_transactions up c b n) = fst (get_scheduled_transactions up c b n')"
  "fst (get_scheduled_transaction up c b a n) = fst (get_scheduled_transaction up c b a n')"
  unfolding method_defs by (rule make_request_fst_indep)+

lemma execute_tool_fst_indep:
  "fst (execute_tool up c t args n) = fst (execute_tool up c t args n')"
  unfolding execute_tool_def
  by (simp; intro conjI impI subscript_fst_indep method_fst_indep)

lemma call_tool_fst_indep:
  "fst (call_tool refuses env up dumps t args n) = fst (call_tool refuses env up dumps t args n')"
proof (cases "get_ynab_client refuses env")
  case (Inl e)
  then show ?thesis by (simp add: call_tool_def)
next
  case (Inr c)
  have "fst (execute_tool up c t args n) = fst (execute_tool up c t args n')"
    by (rule execute_tool_fst_indep)
  then show ?thesis
    using Inr by (cases "execute_tool up c t args n"; cases "execute_tool up c t args n'")
      (auto simp: call_tool_def split: sum.splits)
qed

lemma method_not_KeyError [simp]:
  "fst (get_budgets up c n) \<noteq> Inl (KeyError k)"
  "fst (get_budget up c b n) \<noteq> Inl (KeyError k)"
  "fst (get_budget_settings up c b n) \<noteq> Inl (KeyError k)"
  "fst (get_accounts up c b n) \<noteq> Inl (KeyError k)"
  "fst (get_account up c b a n) \<noteq> Inl (KeyError k)"
  "fst (get_categories up c b n) \<noteq> Inl (KeyError k)"
  "fst (get_category up c b a n) \<noteq> Inl (KeyError k)"
  "fst (get_payees up c b n) \<noteq> Inl (KeyError k)"
  "fst (get_payee up c b a n) \<noteq> Inl (KeyError k)"
  "fst (get_transactions up c b s t n) \<noteq> Inl (KeyError k)"
  "fst (get_transaction up c b a n) \<noteq> Inl (KeyError k)"
  "fst (get_transactions_by_account up c b a s n) \<noteq> Inl (KeyError k)"
  "fst (get_transactions_by_category up c b a s n) \<noteq> Inl (KeyError k)"
  "fst (get_transactions_by_payee up c b a s n) \<noteq> Inl (KeyError k)"
  "fst (get_months up c b n) \<noteq> Inl (KeyError k)"
  "fst (get_month up c b a n) \<noteq> Inl (KeyError k)"
  "fst (get_scheduled_transactions up c b n) \<noteq> Inl (KeyError k)"
  "fst (get_scheduled_transaction up c b a n) \<noteq> Inl (KeyError k)"
  unfolding method_defs by (rule make_request_not_KeyError)+

lemma invoke_ex:
  "\<exists>call. method_name call = ''get_budgets'' \<and> get_budgets up c n = invoke up c call n"
  "\<exists>call. method_name call = ''get_budget'' \<and> get_budget up c b n = invoke up c call n"
  "\<exists>call. method_name call = ''get_budget_settings'' \<and> get_budget_settings up c b n = invoke up c call n"
  "\<exists>call. method_name call = ''get_accounts'' \<and> get_accounts up c b n = invoke up c call n"
  "\<exists>call. method_name call = ''get_account'' \<and> get_account up c b a n = invoke up c call n"
  "\<exists>call. method_name call = ''get_categories'' \<and> get_categories up c b n = invoke up c call n"
  "\<exists>call. method_name call = ''get_category'' \<and> get_category up c b a n = invoke up c call n"
  "\<exists>call. method_name call = ''get_payees'' \<and> get_payees up c b n = invoke up c call n"
  "\<exists>call. method_name call = ''get_payee'' \<and> get_payee up c b a n = invoke up c call n"
  "\<exists>call. method_name call = ''get_transactions'' \<and> get_transactions up c b s t n = invoke up c call n"
  "\<exists>call. method_name call = ''get_transaction'' \<and> get_transaction up c b a n = invoke up c call n"
  "\<exists>call. method_name call = ''get_transactions_by_account'' \<and> get_transactions_by_account up c b a s n = invoke up c call n"
  "\<exists>call. method_name call = ''get_transactions_by_category'' \<and> get_transactions_by_category up c b a s n = invoke up c call n"
  "\<exists>call. method_name call = ''get_transactions_by_payee'' \<and> get_transactions_by_payee up c b a s n = invoke up c call n"
  "\<exists>call. method_name call = ''get_months'' \<and> get_months up c b n = invoke up c call n"
  "\<exists>call. method_name call = ''get_month'' \<and> get_month up c b a n = invoke up c call n"
  "\<exists>call. method_name call = ''get_scheduled_transactions'' \<and> get_scheduled_transactions up c b n = invoke up c call n"
  "\<exists>call. method_name call = ''get_scheduled_transaction'' \<and> get_scheduled_transaction up c b a n = invoke up c call n"
proof -
  show "\<exists>call. method_name call = ''get_budgets'' \<and> get_budgets up c n = invoke up c call n"
    by (rule exI [of _ "GetBudgets"]) simp
  show "\<exists>call. method_name call = ''get_budget'' \<and> get_budget up c b n = invoke up c call n"
    by (rule exI [of _ "GetBudget b"]) simp
  show "\<exists>call. method_name call = ''get_budget_settings'' \<and> get_budget_settings up c b n = invoke up c call n"
    by (rule exI [of _ "GetBudgetSettings b"]) simp
  show "\<exists>call. method_name call = ''get_accounts'' \<and> get_accounts up c b n = invoke up c call n"
    by (rule exI [of _ "GetAccounts b"]) simp
  show "\<exists>call. method_name call = ''get_account'' \<and> get_account up c b a n = invoke up c call n"
    by (rule exI [of _ "GetAccount b a"]) simp
  show "\<exists>call. method_name call = ''get_categories'' \<and> get_categories up c b n = invoke up c call n"
    by (rule exI [of _ "GetCategories b"]) simp
  show "\<exists>call. method_name call = ''get_category'' \<and> get_category up c b a n = invoke up c call n"
    by (rule exI [of _ "GetCategory b a"]) simp
  show "\<exists>call. method_name call = ''get_payees'' \<and> get_payees up c b n = invoke up c call n"
    by (rule exI [of _ "GetPayees b"]) simp
  show "\<exists>call. method_name call = ''get_payee'' \<and> get_payee up c b a n = invoke up c call n"
    by (rule exI [of _ "GetPayee b a"]) simp
  show "\<exists>call. method_name call = ''get_transactions'' \<and> get_transactions up c b s t n = invoke up c call n"
    by (rule exI [of _ "GetTransactions b s t"]) simp
  show "\<exists>call. method_name call = ''get_transaction'' \<and> get_transaction up c b a n = invoke up c call n"
    by (rule exI [of _ "GetTransaction b a"]) simp
  show "\<exists>call. method_name call = ''get_transactions_by_account'' \<and> get_transactions_by_account up c b a s n = invoke up c call n"
    by (rule exI [of _ "GetTransactionsByAccount b a s"]) simp
  show "\<exists>call. method_name call = ''get_transactions_by_category'' \<and> get_transactions_by_category up c b a s n = invoke up c call n"
    by (rule exI [of _ "GetTransactionsByCategory b a s"]) simp
  show "\<exists>call. method_name call = ''get_transactions_by_payee'' \<and> get_transactions_by_payee up c b a s n = invoke up c call n"
    by (rule exI [of _ "GetTransactionsByPayee b a s"]) simp
  show "\<exists>call. method_name call = ''get_months'' \<and> get_months up c b n = invoke up c call n"
    by (rule exI [of _ "GetMonths b"]) simp
  show "\<exists>call. method_name call = ''get_month'' \<and> get_month up c b a n = invoke up c call n"
    by (rule exI [of _ "GetMonth b a"]) simp
  show "\<exists>call. method_name call = ''get_scheduled_transactions'' \<and> get_scheduled_transactions up c b n = invoke up c call n"
    by (rule exI [of _ "GetScheduledTransactions b"]) simp
  show "\<exists>call. method_name call = ''get_scheduled_transaction'' \<and> get_scheduled_transaction up c b a n = invoke up c call n"
    by (rule exI [of _ "GetScheduledTransaction b a"]) simp
qed

text \<open>
  The reply of \<open>call_tool\<close> is always one text item: the serialised result, or a message
  whose prefix is decided by the class of the exception.
\<close>

lemma handle_exn_prefix:
  "handle_exn e =
     [\<lparr> content_type = ''text'',
        content_text =
          (if is_ValueError e then ''Configuration Error: '' else ''Error: '') @ str_exn e \<rparr>]"
  by (cases e) (simp_all add: handle_exn_def)

lemma call_tool_reply:
  "\<exists>txt. fst (call_tool refuses env up dumps t args n)
            = [\<lparr> content_type = ''text'', content_text = txt \<rparr>]
     \<and> ((\<exists>v. txt = format_response dumps v)
          \<or> prefix ''Error: '' txt \<or> prefix ''Configuration Error: '' txt)"
proof (cases "get_ynab_client refuses env")
  case (Inl e)
  then show ?thesis
    by (simp add: call_tool_def handle_exn_prefix)
next
  case (Inr c)
  then show ?thesis
    by (cases "execute_tool up c t args n"; cases "fst (execute_tool up c t args n)")
       (auto simp: call_tool_def handle_exn_prefix)
qed

text \<open>The registry, looked at column by column.\<close>

lemma list_tools_contract: "map contract list_tools = spec_tool_table"
  by (simp add: list_tools_def contract_def optional_params_def spec_tool_table_def property_defs)

lemma list_tools_length: "length list_tools = 18"
  by (simp add: list_tools_def)

lemma list_tools_names:
  "map name list_tools =
     [''get_budgets'', ''get_budget'', ''get_budget_settings'', ''get_accounts'', ''get_account'',
      ''get_categories'', ''get_category'', ''get_payees'', ''get_payee'', ''get_transactions'',
      ''get_transaction'', ''get_transactions_by_account'', ''get_transactions_by_category'',
      ''get_transactions_by_payee'', ''get_months'', ''get_month'',
      ''get_scheduled_transactions'', ''get_scheduled_transaction'']"
  by (simp add: list_tools_def)

lemma list_tools_distinct: "distinct (map name list_tools)"
  unfolding list_tools_names by simp

lemma list_tools_string_typed:
  "\<forall>t \<in> set list_tools.
     stype (inputSchema t) = ''object''
     \<and> (\<forall>d \<in> set (map snd (properties (inputSchema t))). ptype d = ''string'')
     \<and> set (required (inputSchema t)) \<subseteq> set (map fst (properties (inputSchema t)))"
  by (simp add: list_tools_def property_defs)

text \<open>The query parameters of \<open>get_transactions\<close>.\<close>

lemma transactions_params_cases:
  "transactions_params s t =
     (if truthy s then [(''since_date'', str_of s)] else []) @
     (if truthy t then [(''type'', str_of t)] else [])"
  by (simp add: transactions_params_def)

lemma since_date_key_iff:
  "''since_date'' \<in> set (map fst (transactions_params s t)) \<longleftrightarrow> truthy s"
  by (cases "truthy s"; cases "truthy t") (simp_all add: transactions_params_cases)

lemma type_key_iff:
  "''type'' \<in> set (map fst (transactions_params s t)) \<longleftrightarrow> truthy t"
  by (cases "truthy s"; cases "truthy t") (simp_all add: transactions_params_cases)

lemma truthy_simps [simp]:
  "truthy None = False" "truthy (Some v) = (v \<noteq> [])"
  by (simp_all add: truthy_def)

lemma status_prefix_differs:
  "\<not> prefix ''YNAB API request failed with status'' (''YNAB API request failed: '' @ d)"
  by simp

lemma str_nat_404: "str_nat 404 = ''404''"
  by code_simp

section \<open>The dispatch boundary\<close>

text \<open>
  Claim C1.  The reply of \<open>call_tool\<close> is prefixed \<open>Error: \<close> for client and runtime errors,
  the unknown-tool condition included, and \<open>Configuration Error: \<close> exactly when the
  credential is missing or empty.  The code does otherwise: with the credential present
  (\<open>YNAB_TOKEN\<close> is \<open>test-token\<close>, and the session for the default base URL is built, so
  there is a client), an unknown tool name is answered
  \<open>Configuration Error: Unknown tool: unknown_tool\<close>, with no request issued; and so is a
  2xx response whose body is not JSON, since the decoder's error is a \<open>ValueError\<close> as
  well.  A missing required argument, by contrast, is answered with the prefix \<open>Error: \<close>.
\<close>

theorem call_tool_unknown_tool_reply:
  assumes "refuses ''https://api.ynab.com/v1''
             [(''Authorization'', ''Bearer test-token''), (''Content-Type'', ''application/json'')]
           = None"
  shows
  "(\<exists>c. get_ynab_client refuses [''YNAB_TOKEN'' \<mapsto> ''test-token''] = Inr c)
   \<and> call_tool refuses [''YNAB_TOKEN'' \<mapsto> ''test-token''] up dumps ''unknown_tool'' Map.empty n
       = ([\<lparr> content_type = ''text'',
             content_text = ''Configuration Error: Unknown tool: unknown_tool'' \<rparr>], n)
   \<and> fst (call_tool refuses [''YNAB_TOKEN'' \<mapsto> ''test-token'']
            (\<lambda>r. Response 200 ''<html>'' (Inl ''Expecting value'')) dumps
            ''get_budgets'' Map.empty n)
       = [\<lparr> content_type = ''text'',
            content_text = ''Configuration Error: Expecting value'' \<rparr>]
   \<and> fst (call_tool refuses [''YNAB_TOKEN'' \<mapsto> ''test-token''] up dumps
            ''get_budget'' Map.empty n)
       = [\<lparr> content_type = ''text'', content_text = ''Error: '' @ quoted ''budget_id'' \<rparr>]"
proof -
  have g: "get_ynab_client refuses [''YNAB_TOKEN'' \<mapsto> ''test-token'']
             = Inr (new_client \<lparr> ynab_token = ''test-token'',
                                 ynab_base_url = ''https://api.ynab.com/v1'' \<rparr>)"
    using assms
    by (simp add: get_ynab_client_def get_config_def from_env_def YNABClient_init_cases)
  have a: "\<exists>c. get_ynab_client refuses [''YNAB_TOKEN'' \<mapsto> ''test-token''] = Inr c"
    using g by blast
  have b: "call_tool refuses [''YNAB_TOKEN'' \<mapsto> ''test-token''] up dumps
             ''unknown_tool'' Map.empty n
       = ([\<lparr> content_type = ''text'',
             content_text = ''Configuration Error: Unknown tool: unknown_tool'' \<rparr>], n)"
    by (simp add: call_tool_def g execute_tool_def handle_exn_def)
  have c: "fst (call_tool refuses [''YNAB_TOKEN'' \<mapsto> ''test-token'']
            (\<lambda>r. Response 200 ''<html>'' (Inl ''Expecting value'')) dumps
            ''get_budgets'' Map.empty n)
       = [\<lparr> content_type = ''text'',
            content_text = ''Configuration Error: Expecting value'' \<rparr>]"
    by (simp add: call_tool_def g execute_tool_def handle_exn_def get_budgets_def
        make_request_def is_success_def)
  have d: "fst (call_tool refuses [''YNAB_TOKEN'' \<mapsto> ''test-token''] up dumps
            ''get_budget'' Map.empty n)
       = [\<lparr> content_type = ''text'', content_text = ''Error: '' @ quoted ''budget_id'' \<rparr>]"
    by (simp add: call_tool_def g execute_tool_def subscript_def handle_exn_def quoted_def)
  from a b c d show ?thesis by (intro conjI)
qed

theorem call_tool_unknown_tool_reply_witness:
  "call_tool (\<lambda>url hdrs. None) [''YNAB_TOKEN'' \<mapsto> ''test-token'']
     (\<lambda>r. RequestError ''refused'' :: unit http_outcome) (\<lambda>i v. ''{}'')
     ''unknown_tool'' Map.empty []
   = ([\<lparr> content_type = ''text'',
         content_text = ''Configuration Error: Unknown tool: unknown_tool'' \<rparr>], [])"
proof -
  have h: "(\<lambda>url hdrs. None :: exn option) ''https://api.ynab.com/v1''
             [(''Authorization'', ''Bearer test-token''), (''Content-Type'', ''application/json'')]
           = None"
    by simp
  from call_tool_unknown_tool_reply
      [OF h, of "\<lambda>r. RequestError ''refused'' :: unit http_outcome" "\<lambda>i v. ''{}''" "[]",
       THEN conjunct2, THEN conjunct1]
  show ?thesis .
qed

section \<open>The tool registry\<close>

text \<open>
  Claim C2.  \<open>list_tools\<close> returns exactly the eighteen descriptors of the specification's
  table, in the table's order: for each, the name, the required parameters and the optional
  parameters (with the enumeration \<open>uncategorized\<close>, \<open>unapproved\<close> on the \<open>type\<close>
  parameter of \<open>get_transactions\<close> and none elsewhere) are those of the row.  The names
  are pairwise distinct, every schema is an object, every parameter has type \<open>string\<close>,
  and every required parameter is a declared property.
\<close>

theorem list_tools_is_spec_table:
  "map contract list_tools = spec_tool_table
   \<and> length list_tools = 18
   \<and> distinct (map name list_tools)
   \<and> (\<forall>t \<in> set list_tools.
         stype (inputSchema t) = ''object''
         \<and> (\<forall>d \<in> set (map snd (properties (inputSchema t))). ptype d = ''string'')
         \<and> set (required (inputSchema t)) \<subseteq> set (map fst (properties (inputSchema t))))"
  using list_tools_contract list_tools_length list_tools_distinct list_tools_string_typed
  by (intro conjI)

theorem list_tools_is_spec_table_witness:
  "contract (list_tools ! 9)
     = (''get_transactions'', [''budget_id''],
        [(''since_date'', None), (''type'', Some [''uncategorized'', ''unapproved''])])
   \<and> ptype (snd (properties (inputSchema (list_tools ! 9)) ! 2)) = ''string''"
proof -
  have m: "list_tools ! 9 \<in> set list_tools"
    by (simp add: list_tools_length)
  have p: "snd (properties (inputSchema (list_tools ! 9)) ! 2)
             \<in> set (map snd (properties (inputSchema (list_tools ! 9))))"
    by (simp add: list_tools_def)
  have "map contract list_tools ! 9 = spec_tool_table ! 9"
    using list_tools_is_spec_table by simp
  then have a: "contract (list_tools ! 9)
     = (''get_transactions'', [''budget_id''],
        [(''since_date'', None), (''type'', Some [''uncategorized'', ''unapproved''])])"
    by (simp add: list_tools_length spec_tool_table_def)
  have b: "ptype (snd (properties (inputSchema (list_tools ! 9)) ! 2)) = ''string''"
    using list_tools_is_spec_table m p by blast
  from a b show ?thesis by (rule conjI)
qed

section \<open>Required arguments\<close>

text \<open>
  Claim C3.  For every tool \<open>t\<close> of the registry and every argument mapping, \<open>execute_tool\<close>
  fails with \<open>KeyError\<close> if and only if some parameter that \<open>t\<close> declares required is absent
  from the mapping, and then the network state is unchanged: no request was issued.  When
  all required parameters are present, the result is that of the gateway method of the
  same name; it issues one request and is never a \<open>KeyError\<close>.
\<close>

theorem execute_tool_missing_key:
  assumes "t \<in> set list_tools"
  shows "((\<exists>k. fst (execute_tool up c (name t) args n) = Inl (KeyError k))
            \<longleftrightarrow> (\<exists>p \<in> set (required (inputSchema t)). args p = None))
       \<and> ((\<exists>p \<in> set (required (inputSchema t)). args p = None)
            \<longrightarrow> snd (execute_tool up c (name t) args n) = n)
       \<and> ((\<forall>p \<in> set (required (inputSchema t)). args p \<noteq> None)
            \<longrightarrow> (\<exists>call e. method_name call = name t
                  \<and> execute_tool up c (name t) args n = invoke up c call n
                  \<and> snd (invoke up c call n) = n @ [client_get (client c) e]))"
proof -
  have k: "((\<exists>k. fst (execute_tool up c (name t) args n) = Inl (KeyError k))
            \<longleftrightarrow> (\<exists>p \<in> set (required (inputSchema t)). args p = None))
       \<and> ((\<exists>p \<in> set (required (inputSchema t)). args p = None)
            \<longrightarrow> snd (execute_tool up c (name t) args n) = n)
       \<and> ((\<forall>p \<in> set (required (inputSchema t)). args p \<noteq> None)
            \<longrightarrow> (\<exists>call. method_name call = name t
                  \<and> execute_tool up c (name t) args n = invoke up c call n))"
    using assms
    apply (simp add: list_tools_def)
    apply (elim disjE)
    apply (simp_all add: execute_tool_def subscript_def invoke_ex split: option.splits)
    done
  have l: "\<exists>e. snd (invoke up c call n) = n @ [client_get (client c) e]" for call
    by (rule invoke_log)
  from k l show ?thesis by blast
qed

theorem execute_tool_missing_key_witness:
  "(\<exists>k. fst (execute_tool (\<lambda>r. RequestError ''refused'' :: unit http_outcome)
             (new_client \<lparr> ynab_token = ''tok'', ynab_base_url = ''u'' \<rparr>)
             ''get_account'' [''budget_id'' \<mapsto> ''b''] []) = Inl (KeyError k))
   \<and> snd (execute_tool (\<lambda>r. RequestError ''refused'' :: unit http_outcome)
             (new_client \<lparr> ynab_token = ''tok'', ynab_base_url = ''u'' \<rparr>)
             ''get_account'' [''budget_id'' \<mapsto> ''b''] []) = []
   \<and> (\<exists>call. method_name call = ''get_account''
         \<and> execute_tool (\<lambda>r. RequestError ''refused'' :: unit http_outcome)
             (new_client \<lparr> ynab_token = ''tok'', ynab_base_url = ''u'' \<rparr>)
             ''get_account'' [''budget_id'' \<mapsto> ''b'', ''account_id'' \<mapsto> ''a''] []
           = invoke (\<lambda>r. RequestError ''refused'')
             (new_client \<lparr> ynab_token = ''tok'', ynab_base_url = ''u'' \<rparr>) call [])"
proof -
  have m: "list_tools ! 4 \<in> set list_tools"
    by (simp add: list_tools_length)
  have nm: "name (list_tools ! 4) = ''get_account''"
    and rq: "required (inputSchema (list_tools ! 4)) = [''budget_id'', ''account_id'']"
    by (simp_all add: list_tools_def)
  note w1 = execute_tool_missing_key [OF m,
      of "\<lambda>r. RequestError ''refused'' :: unit http_outcome"
         "new_client \<lparr> ynab_token = ''tok'', ynab_base_url = ''u'' \<rparr>"
         "[''budget_id'' \<mapsto> ''b'']" "[]"]
  note w2 = execute_tool_missing_key [OF m,
      of "\<lambda>r. RequestError ''refused'' :: unit http_outcome"
         "new_client \<lparr> ynab_token = ''tok'', ynab_base_url = ''u'' \<rparr>"
         "[''budget_id'' \<mapsto> ''b'', ''account_id'' \<mapsto> ''a'']" "[]"]
  have a: "\<exists>k. fst (execute_tool (\<lambda>r. RequestError ''refused'' :: unit http_outcome)
             (new_client \<lparr> ynab_token = ''tok'', ynab_base_url = ''u'' \<rparr>)
             ''get_account'' [''budget_id'' \<mapsto> ''b''] []) = Inl (KeyError k)"
    using w1 [THEN conjunct1] by (simp add: nm rq)
  have b: "snd (execute_tool (\<lambda>r. RequestError ''refused'' :: unit http_outcome)
             (new_client \<lparr> ynab_token = ''tok'', ynab_base_url = ''u'' \<rparr>)
             ''get_account'' [''budget_id'' \<mapsto> ''b''] []) = []"
    using w1 [THEN conjunct2, THEN conjunct1] by (simp add: nm rq)
  have c: "\<exists>call. method_name call = ''get_account''
         \<and> execute_tool (\<lambda>r. RequestError ''refused'' :: unit http_outcome)
             (new_client \<lparr> ynab_token = ''tok'', ynab_base_url = ''u'' \<rparr>)
             ''get_account'' [''budget_id'' \<mapsto> ''b'', ''account_id'' \<mapsto> ''a''] []
           = invoke (\<lambda>r. RequestError ''refused'')
             (new_client \<lparr> ynab_token = ''tok'', ynab_base_url = ''u'' \<rparr>) call []"
    using w2 [THEN conjunct2, THEN conjunct2] by (simp add: nm rq) blast
  from a b c show ?thesis by (intro conjI)
qed

section \<open>Uniform gateway errors\<close>

text \<open>
  Claim C4.  Whatever public method is called, it issues one request; if the upstream answers
  that request with a status of 400 or more, the method raises \<open>YNABClientError\<close> with the
  message \<open>YNAB API request failed with status\<close>, the status code in decimal, a colon and
  the response body, so the message contains both the code and the body; if the request
  fails in transport, the method raises \<open>YNABClientError\<close> with the message
  \<open>YNAB API request failed: \<close> followed by the failure's description and nothing else,
  which is not of the status form.
\<close>

theorem gateway_error_uniform:
  "\<exists>e. snd (invoke up c call n) = n @ [client_get (client c) e] \<and>
     (\<forall>status body js.
        up (client_get (client c) e) = Response status body js \<and> 400 \<le> status \<longrightarrow>
          fst (invoke up c call n) =
            Inl (YNABClientError
              (''YNAB API request failed with status '' @ str_nat status @ '': '' @ body))
          \<and> sublist (str_nat status)
              (''YNAB API request failed with status '' @ str_nat status @ '': '' @ body)
          \<and> sublist body
              (''YNAB API request failed with status '' @ str_nat status @ '': '' @ body)) \<and>
     (\<forall>d. up (client_get (client c) e) = RequestError d \<longrightarrow>
          fst (invoke up c call n) = Inl (YNABClientError (''YNAB API request failed: '' @ d))
          \<and> sublist d (''YNAB API request failed: '' @ d)
          \<and> \<not> prefix ''YNAB API request failed with status'' (''YNAB API request failed: '' @ d))"
proof -
  obtain e where e: "invoke up c call = make_request up c e"
    using invoke_is_request by blast
  have log: "snd (invoke up c call n) = n @ [client_get (client c) e]"
    by (simp add: e make_request_log)
  have http: "fst (invoke up c call n) =
            Inl (YNABClientError
              (''YNAB API request failed with status '' @ str_nat status @ '': '' @ body))"
    if "up (client_get (client c) e) = Response status body js" "400 \<le> status"
    for status body js
    using that by (simp add: e make_request_def is_success_def)
  have sub1: "sublist (str_nat status)
              (''YNAB API request failed with status '' @ str_nat status @ '': '' @ body)"
    for status body
    by (rule sublist_appendI)
  have sub2: "sublist body
              (''YNAB API request failed with status '' @ str_nat status @ '': '' @ body)"
    for status body
    using sublist_append_leftI
      [of body "''YNAB API request failed with status '' @ str_nat status @ '': ''"]
    by simp
  have tr: "fst (invoke up c call n) = Inl (YNABClientError (''YNAB API request failed: '' @ d))"
    if "up (client_get (client c) e) = RequestError d" for d
    using that by (simp add: e make_request_def)
  have sub3: "sublist d (''YNAB API request failed: '' @ d)" for d
    by (rule sublist_append_leftI)
  show ?thesis
    using log http sub1 sub2 tr sub3 status_prefix_differs by blast
qed

theorem gateway_error_uniform_witness:
  "fst (invoke (\<lambda>r. Response 404 ''not found'' (Inl ''bad'') :: unit http_outcome)
         (new_client \<lparr> ynab_token = ''tok'', ynab_base_url = ''https://api.ynab.com/v1'' \<rparr>)
         (GetAccount ''b'' ''a'') [])
     = Inl (YNABClientError ''YNAB API request failed with status 404: not found'')
   \<and> fst (invoke (\<lambda>r. RequestError ''Connection refused'' :: unit http_outcome)
         (new_client \<lparr> ynab_token = ''tok'', ynab_base_url = ''https://api.ynab.com/v1'' \<rparr>)
         (GetAccount ''b'' ''a'') [])
     = Inl (YNABClientError ''YNAB API request failed: Connection refused'')"
proof -
  have a: "fst (invoke (\<lambda>r. Response 404 ''not found'' (Inl ''bad'') :: unit http_outcome)
         (new_client \<lparr> ynab_token = ''tok'', ynab_base_url = ''https://api.ynab.com/v1'' \<rparr>)
         (GetAccount ''b'' ''a'') [])
     = Inl (YNABClientError ''YNAB API request failed with status 404: not found'')"
    using gateway_error_uniform [of "\<lambda>r. Response 404 ''not found'' (Inl ''bad'')"
        "new_client \<lparr> ynab_token = ''tok'', ynab_base_url = ''https://api.ynab.com/v1'' \<rparr>"
        "GetAccount ''b'' ''a''" "[]"] str_nat_404
    by auto
  have b: "fst (invoke (\<lambda>r. RequestError ''Connection refused'' :: unit http_outcome)
         (new_client \<lparr> ynab_token = ''tok'', ynab_base_url = ''https://api.ynab.com/v1'' \<rparr>)
         (GetAccount ''b'' ''a'') [])
     = Inl (YNABClientError ''YNAB API request failed: Connection refused'')"
    using gateway_error_uniform [of "\<lambda>r. RequestError ''Connection refused''"
        "new_client \<lparr> ynab_token = ''tok'', ynab_base_url = ''https://api.ynab.com/v1'' \<rparr>"
        "GetAccount ''b'' ''a''" "[]"]
    by auto
  from a b show ?thesis by (rule conjI)
qed

section \<open>Query parameters of get\_transactions\<close>




section \<open>The last-used budget\<close>

text \<open>
  Claim C6.  \<open>get_budget\<close> called with \<open>last-used\<close> issues exactly one request: a GET whose
  endpoint, relative to the base URL, is \<open>/budgets/last-used\<close>, the sentinel put into the
  path as it is, with no query string.  When the upstream answers that request with a 2xx status and a JSON body,
  the method returns that JSON value.
\<close>

theorem get_budget_last_used:
  "snd (get_budget up c ''last-used'' n) = n @ [client_get (client c) ''/budgets/last-used'']
   \<and> req_method (client_get (client c) ''/budgets/last-used'') = ''GET''
   \<and> req_endpoint (client_get (client c) ''/budgets/last-used'') = ''/budgets/last-used''
   \<and> CHR ''?'' \<notin> set (req_endpoint (client_get (client c) ''/budgets/last-used''))
   \<and> (up (client_get (client c) ''/budgets/last-used'') = Response status body (Inr v)
        \<and> is_success status
        \<longrightarrow> fst (get_budget up c ''last-used'' n) = Inr v)"
  by (simp add: get_budget_def make_request_log client_get_def)
     (simp add: make_request_def client_get_def)

theorem get_budget_last_used_witness:
  "get_budget (\<lambda>r. Response 200 ''{}'' (Inr (7::nat)))
      (new_client \<lparr> ynab_token = ''tok'', ynab_base_url = ''https://api.ynab.com/v1'' \<rparr>)
      ''last-used'' []
   = (Inr 7,
      [\<lparr> req_method = ''GET'', req_endpoint = ''/budgets/last-used'',
         req_base_url = ''https://api.ynab.com/v1'',
         req_headers = [(''Authorization'', ''Bearer tok''),
                        (''Content-Type'', ''application/json'')],
         req_timeout = 30 \<rparr>])"
  using get_budget_last_used
      [of "\<lambda>r. Response 200 ''{}'' (Inr (7::nat))"
          "new_client \<lparr> ynab_token = ''tok'', ynab_base_url = ''https://api.ynab.com/v1'' \<rparr>"
          "[]" 200 "''{}''" 7]
  by (simp add: is_success_def client_get_def new_client_def prod_eq_iff)

section \<open>Construction of the client\<close>

text \<open>
  Claim C7, as stated, says that with a non-empty credential construction succeeds without
  raising.  It does not when \<^verbatim>\<open>httpx.Client\<close> refuses the header built from the token: with
  the token \<open>t\<close>, \<open>o\<close> with diaeresis (character 246), \<open>k\<close>, which is not empty, and
  a library that encodes header values as ASCII, building the client raises
  \<open>UnicodeEncodeError\<close> from the position of that character in \<open>Bearer ...\<close>.
\<close>

theorem non_ascii_token_counterexample:
  "[CHR 0x74, CHR 0xF6, CHR 0x6B] \<noteq> ([] :: string)
   \<and> get_ynab_client
        (\<lambda>url hdrs.
           if list_all (\<lambda>kv. list_all (\<lambda>ch. (of_char ch :: nat) < 128) (snd kv)) hdrs then None
           else Some (UnicodeEncodeError
                  (quoted ''ascii'' @ '' codec can'' @ [CHR 0x27] @ ''t encode character '' @
                   quoted ([CHR 0x5C] @ ''xf6'') @
                   '' in position 8: ordinal not in range(128)'')))
        [''YNAB_TOKEN'' \<mapsto> [CHR 0x74, CHR 0xF6, CHR 0x6B]]
     = Inl (UnicodeEncodeError
              (quoted ''ascii'' @ '' codec can'' @ [CHR 0x27] @ ''t encode character '' @
               quoted ([CHR 0x5C] @ ''xf6'') @
               '' in position 8: ordinal not in range(128)''))"
  by (simp add: get_ynab_client_def get_config_def from_env_def YNABClient_init_cases)

text \<open>
  Claim C7, amended.  Building the client for a request (\<open>get_ynab_client\<close>, which reads
  the configuration from the environment and then constructs \<open>YNABClient\<close>) fails with the
  configuration error, the \<open>ValueError\<close> of \<open>Config.from_env\<close> with its fixed message,
  whenever \<open>YNAB_TOKEN\<close> is unset or empty, and \<open>Config.from_env\<close> raises if and only if
  it is.  With a non-empty token the configuration is built, holding that token and the
  base URL (the default one unless \<open>YNAB_BASE_URL\<close> is set), and construction succeeds,
  returning the client of that configuration, exactly when \<^verbatim>\<open>httpx.Client\<close> accepts the
  base URL and the two headers; otherwise the exception of \<^verbatim>\<open>httpx.Client\<close> is raised as
  it is.
\<close>

theorem get_ynab_client_fails_iff:
  "((\<exists>e. from_env env = Inl e) \<longleftrightarrow> (env ''YNAB_TOKEN'' = None \<or> env ''YNAB_TOKEN'' = Some []))
   \<and> (env ''YNAB_TOKEN'' = None \<or> env ''YNAB_TOKEN'' = Some []
        \<longrightarrow> from_env env = Inl (ValueError token_required_message)
          \<and> get_ynab_client refuses env = Inl (ValueError token_required_message))
   \<and> (env ''YNAB_TOKEN'' = Some tok \<and> tok \<noteq> []
        \<longrightarrow> (\<exists>cfg. from_env env = Inr cfg
               \<and> ynab_token cfg = tok
               \<and> ynab_base_url cfg
                   = (case env ''YNAB_BASE_URL'' of
                        None \<Rightarrow> ''https://api.ynab.com/v1'' | Some u \<Rightarrow> u)
               \<and> get_ynab_client refuses env
                   = (case refuses (ynab_base_url cfg)
                             [(''Authorization'', ''Bearer '' @ tok),
                              (''Content-Type'', ''application/json'')] of
                        Some e \<Rightarrow> Inl e
                      | None \<Rightarrow> Inr (new_client cfg))))"
proof -
  have a: "(\<exists>e. from_env env = Inl e)
             \<longleftrightarrow> (env ''YNAB_TOKEN'' = None \<or> env ''YNAB_TOKEN'' = Some [])"
    by (cases "env ''YNAB_TOKEN''") (simp_all add: from_env_def)
  have b: "from_env env = Inl (ValueError token_required_message)
          \<and> get_ynab_client refuses env = Inl (ValueError token_required_message)"
    if "env ''YNAB_TOKEN'' = None \<or> env ''YNAB_TOKEN'' = Some []"
    using that by (auto simp: get_ynab_client_def get_config_def from_env_def)
  have c: "\<exists>cfg. from_env env = Inr cfg
               \<and> ynab_token cfg = tok
               \<and> ynab_base_url cfg
                   = (case env ''YNAB_BASE_URL'' of
                        None \<Rightarrow> ''https://api.ynab.com/v1'' | Some u \<Rightarrow> u)
               \<and> get_ynab_client refuses env
                   = (case refuses (ynab_base_url cfg)
                             [(''Authorization'', ''Bearer '' @ tok),
                              (''Content-Type'', ''application/json'')] of
                        Some e \<Rightarrow> Inl e
                      | None \<Rightarrow> Inr (new_client cfg))"
    if "env ''YNAB_TOKEN'' = Some tok \<and> tok \<noteq> []"
    using that
    by (simp add: get_ynab_client_def get_config_def from_env_def YNABClient_init_cases)
  from a b c show ?thesis by blast
qed

theorem get_ynab_client_fails_iff_witness:
  "get_ynab_client (\<lambda>url hdrs. None) Map.empty = Inl (ValueError token_required_message)
   \<and> get_ynab_client (\<lambda>url hdrs. None) [''YNAB_TOKEN'' \<mapsto> '''']
       = Inl (ValueError token_required_message)
   \<and> get_ynab_client (\<lambda>url hdrs. None) [''YNAB_TOKEN'' \<mapsto> ''test-token'']
       = Inr (new_client \<lparr> ynab_token = ''test-token'',
                           ynab_base_url = ''https://api.ynab.com/v1'' \<rparr>)"
proof -
  have a: "get_ynab_client (\<lambda>url hdrs. None) Map.empty = Inl (ValueError token_required_message)"
    using get_ynab_client_fails_iff [of Map.empty "\<lambda>url hdrs. None", THEN conjunct2, THEN conjunct1]
    by simp
  have b: "get_ynab_client (\<lambda>url hdrs. None) [''YNAB_TOKEN'' \<mapsto> '''']
       = Inl (ValueError token_required_message)"
    using get_ynab_client_fails_iff
      [of "[''YNAB_TOKEN'' \<mapsto> '''']" "\<lambda>url hdrs. None", THEN conjunct2, THEN conjunct1]
    by simp
  have "\<exists>cfg. from_env [''YNAB_TOKEN'' \<mapsto> ''test-token''] = Inr cfg
          \<and> ynab_token cfg = ''test-token''
          \<and> ynab_base_url cfg = ''https://api.ynab.com/v1''
          \<and> get_ynab_client (\<lambda>url hdrs. None) [''YNAB_TOKEN'' \<mapsto> ''test-token'']
              = Inr (new_client cfg)"
    using get_ynab_client_fails_iff
      [of "[''YNAB_TOKEN'' \<mapsto> ''test-token'']" "\<lambda>url hdrs. None" "''test-token''",
       THEN conjunct2, THEN conjunct2]
    by simp
  then obtain cfg where
    f: "from_env [''YNAB_TOKEN'' \<mapsto> ''test-token''] = Inr cfg"
    and g: "get_ynab_client (\<lambda>url hdrs. None) [''YNAB_TOKEN'' \<mapsto> ''test-token'']
              = Inr (new_client cfg)"
    by blast
  from f have "cfg = \<lparr> ynab_token = ''test-token'', ynab_base_url = ''https://api.ynab.com/v1'' \<rparr>"
    by (simp add: from_env_def)
  with g have c: "get_ynab_client (\<lambda>url hdrs. None) [''YNAB_TOKEN'' \<mapsto> ''test-token'']
       = Inr (new_client \<lparr> ynab_token = ''test-token'',
                           ynab_base_url = ''https://api.ynab.com/v1'' \<rparr>)"
    by simp
  from a b c show ?thesis by (intro conjI)
qed

section \<open>The shape of every request\<close>

text \<open>
  Claim C8, as stated, says that every request carries an \<open>Accept\<close> header set to
  \<open>application/json\<close>.  The client configures two headers only, \<open>Authorization\<close> and
  \<open>Content-Type\<close>: the request issued by \<open>get_budgets\<close> has no \<open>Accept\<close> entry among them.
\<close>

theorem accept_header_counterexample:
  "snd (get_budgets (\<lambda>r. RequestError ''refused'' :: unit http_outcome)
         (new_client
            \<lparr> ynab_token = ''tok'', ynab_base_url = ''https://api.ynab.com/v1'' \<rparr>) [])
     = [\<lparr> req_method = ''GET'', req_endpoint = ''/budgets'',
          req_base_url = ''https://api.ynab.com/v1'',
          req_headers = [(''Authorization'', ''Bearer tok''),
                         (''Content-Type'', ''application/json'')],
          req_timeout = 30 \<rparr>]
   \<and> map (\<lambda>r. map_of (req_headers r) ''Accept'')
     (snd (get_budgets (\<lambda>r. RequestError ''refused'' :: unit http_outcome)
            (new_client
               \<lparr> ynab_token = ''tok'', ynab_base_url = ''https://api.ynab.com/v1'' \<rparr>) []))
     = [None]"
  by (simp add: get_budgets_def make_request_log client_get_def new_client_def)

text \<open>
  Claim C8, amended.  Every public method of a client built from a configuration issues
  exactly one request, and that request is a GET against the configured base URL that
  carries the header \<open>Authorization\<close> with \<open>Bearer\<close> and the configured token, the header
  \<open>Content-Type\<close> set to \<open>application/json\<close>, no other header of the client's own, and a
  timeout of 30 seconds.  Every client the constructor returns is such a client.
\<close>

theorem every_request_shape:
  "(\<exists>e. snd (invoke up (new_client cfg) call n) = n @
      [\<lparr> req_method = ''GET'', req_endpoint = e, req_base_url = ynab_base_url cfg,
         req_headers = [(''Authorization'', ''Bearer '' @ ynab_token cfg),
                        (''Content-Type'', ''application/json'')],
         req_timeout = 30 \<rparr>])
   \<and> (YNABClient_init refuses cfg = Inr c \<longrightarrow> c = new_client cfg)"
proof -
  have a: "\<exists>e. snd (invoke up (new_client cfg) call n) = n @
      [\<lparr> req_method = ''GET'', req_endpoint = e, req_base_url = ynab_base_url cfg,
         req_headers = [(''Authorization'', ''Bearer '' @ ynab_token cfg),
                        (''Content-Type'', ''application/json'')],
         req_timeout = 30 \<rparr>]"
    using invoke_log [of up "new_client cfg" call n]
    by (simp add: client_get_def new_client_def)
  have b: "YNABClient_init refuses cfg = Inr c \<longrightarrow> c = new_client cfg"
    using YNABClient_init_Inr by blast
  from a b show ?thesis by (rule conjI)
qed

theorem every_request_shape_witness:
  "snd (invoke (\<lambda>r. RequestError ''refused'' :: unit http_outcome)
         (new_client \<lparr> ynab_token = ''tok'', ynab_base_url = ''https://api.ynab.com/v1'' \<rparr>)
         (GetMonth ''b'' ''2024-01-01'') [])
   = [\<lparr> req_method = ''GET'', req_endpoint = ''/budgets/b/months/2024-01-01'',
        req_base_url = ''https://api.ynab.com/v1'',
        req_headers = [(''Authorization'', ''Bearer tok''),
                       (''Content-Type'', ''application/json'')],
        req_timeout = 30 \<rparr>]"
  using every_request_shape
      [of "\<lambda>r. RequestError ''refused'' :: unit http_outcome"
          "\<lparr> ynab_token = ''tok'', ynab_base_url = ''https://api.ynab.com/v1'' \<rparr>"
          "GetMonth ''b'' ''2024-01-01''" "[]", THEN conjunct1]
  by (simp add: get_month_def make_request_log client_get_def new_client_def)

section \<open>Repeated calls\<close>

text \<open>
  Claim C9.  With the upstream a fixed function from requests to outcomes, calling any
  public method and then calling it again with the same arguments, in the network state the
  first call left, gives the same result; so the serialised payloads are the same, and the
  same holds for two successive \<open>call_tool\<close> invocations.  On the success path the result
  of both calls is the JSON value of the upstream's response, unchanged.
\<close>

theorem invoke_twice_same_payload:
  "fst (invoke up c call n) = fst (invoke up c call (snd (invoke up c call n)))
   \<and> map_sum id (format_response dumps) (fst (invoke up c call n))
       = map_sum id (format_response dumps) (fst (invoke up c call (snd (invoke up c call n))))
   \<and> fst (call_tool refuses env up dumps tool_name args n)
       = fst (call_tool refuses env up dumps tool_name args
                (snd (call_tool refuses env up dumps tool_name args n)))
   \<and> (\<exists>e. snd (invoke up c call n) = n @ [client_get (client c) e]
         \<and> (\<forall>status body v.
               up (client_get (client c) e) = Response status body (Inr v) \<and> is_success status
               \<longrightarrow> fst (invoke up c call n) = Inr v
                 \<and> fst (invoke up c call (snd (invoke up c call n))) = Inr v))"
proof -
  have a: "fst (invoke up c call n) = fst (invoke up c call (snd (invoke up c call n)))"
    by (rule invoke_fst_indep)
  have b: "fst (call_tool refuses env up dumps tool_name args n)
       = fst (call_tool refuses env up dumps tool_name args
                (snd (call_tool refuses env up dumps tool_name args n)))"
    by (rule call_tool_fst_indep)
  from a have c: "map_sum id (format_response dumps) (fst (invoke up c call n))
       = map_sum id (format_response dumps) (fst (invoke up c call (snd (invoke up c call n))))"
    by (rule arg_cong)
  obtain e where e: "invoke up c call = make_request up c e"
    using invoke_is_request by blast
  have log: "snd (invoke up c call n) = n @ [client_get (client c) e]"
    by (simp add: e make_request_log)
  have pass: "fst (invoke up c call m) = Inr v"
    if "up (client_get (client c) e) = Response status body (Inr v)" "is_success status"
    for status body v m
    using that by (simp add: e make_request_def)
  have d: "\<exists>e. snd (invoke up c call n) = n @ [client_get (client c) e]
         \<and> (\<forall>status body v.
               up (client_get (client c) e) = Response status body (Inr v) \<and> is_success status
               \<longrightarrow> fst (invoke up c call n) = Inr v
                 \<and> fst (invoke up c call (snd (invoke up c call n))) = Inr v)"
    using log pass by blast
  from a c b d show ?thesis by (intro conjI)
qed

theorem invoke_twice_same_payload_witness:
  "fst (invoke (\<lambda>r. Response 200 ''{}'' (Inr (7::nat)))
         (new_client \<lparr> ynab_token = ''tok'', ynab_base_url = ''u'' \<rparr>)
         (GetPayees ''b'') [])
   = fst (invoke (\<lambda>r. Response 200 ''{}'' (Inr (7::nat)))
         (new_client \<lparr> ynab_token = ''tok'', ynab_base_url = ''u'' \<rparr>)
         (GetPayees ''b'')
         (snd (invoke (\<lambda>r. Response 200 ''{}'' (Inr (7::nat)))
                 (new_client \<lparr> ynab_token = ''tok'', ynab_base_url = ''u'' \<rparr>)
                 (GetPayees ''b'') [])))
   \<and> fst (invoke (\<lambda>r. Response 200 ''{}'' (Inr (7::nat)))
         (new_client \<lparr> ynab_token = ''tok'', ynab_base_url = ''u'' \<rparr>)
         (GetPayees ''b'') []) = Inr 7"
proof -
  note w = invoke_twice_same_payload
      [of "\<lambda>r. Response 200 ''{}'' (Inr (7::nat))"
          "new_client \<lparr> ynab_token = ''tok'', ynab_base_url = ''u'' \<rparr>"
          "GetPayees ''b''" "[]"]
  have s: "is_success 200"
    by (simp add: is_success_def)
  from w [THEN conjunct2, THEN conjunct2, THEN conjunct2] s
  have b: "fst (invoke (\<lambda>r. Response 200 ''{}'' (Inr (7::nat)))
         (new_client \<lparr> ynab_token = ''tok'', ynab_base_url = ''u'' \<rparr>)
         (GetPayees ''b'') []) = Inr 7"
    by blast
  from w [THEN conjunct1] b show ?thesis by (rule conjI)
qed

section \<open>Empty filters\<close>

text \<open>
  Claim C10.  An optional filter passed as the empty string is treated as an absent one:
  \<open>get_transactions\<close> with \<open>since_date\<close> or \<open>type_filter\<close> empty, and the by-account,
  by-category and by-payee methods with \<open>since_date\<close> empty, behave as with \<open>None\<close> in its
  place; the parameter is not a key of the query, and with every filter empty the request
  goes to the bare path.
\<close>

theorem empty_filter_as_absent:
  "get_transactions up c b (Some []) t = get_transactions up c b None t
   \<and> get_transactions up c b s (Some []) = get_transactions up c b s None
   \<and> get_transactions_by_account up c b a (Some []) = get_transactions_by_account up c b a None
   \<and> get_transactions_by_category up c b a (Some []) = get_transactions_by_category up c b a None
   \<and> get_transactions_by_payee up c b a (Some []) = get_transactions_by_payee up c b a None
   \<and> ''since_date'' \<notin> set (map fst (transactions_params (Some []) t))
   \<and> ''type'' \<notin> set (map fst (transactions_params s (Some [])))
   \<and> snd (get_transactions up c b (Some []) (Some []) n)
       = n @ [client_get (client c) (''/budgets/'' @ b @ ''/transactions'')]
   \<and> snd (get_transactions_by_account up c b a (Some []) n)
       = n @ [client_get (client c) (''/budgets/'' @ b @ ''/accounts/'' @ a @ ''/transactions'')]
   \<and> snd (get_transactions_by_category up c b a (Some []) n)
       = n @ [client_get (client c) (''/budgets/'' @ b @ ''/categories/'' @ a @ ''/transactions'')]
   \<and> snd (get_transactions_by_payee up c b a (Some []) n)
       = n @ [client_get (client c) (''/budgets/'' @ b @ ''/payees/'' @ a @ ''/transactions'')]"
  by (simp add: get_transactions_def get_transactions_by_account_def
      get_transactions_by_category_def get_transactions_by_payee_def
      transactions_endpoint_def transactions_params_cases with_since_date_def
      since_date_key_iff type_key_iff make_request_log del: set_map)

theorem empty_filter_as_absent_witness:
  "map req_endpoint
     (snd (get_transactions_by_account (\<lambda>r. RequestError ''refused'' :: unit http_outcome)
            (new_client \<lparr> ynab_token = ''tok'', ynab_base_url = ''u'' \<rparr>)
            ''b'' ''a'' (Some '''') []))
   = [''/budgets/b/accounts/a/transactions'']
   \<and> get_transactions (\<lambda>r. RequestError ''refused'' :: unit http_outcome)
        (new_client \<lparr> ynab_token = ''tok'', ynab_base_url = ''u'' \<rparr>)
        ''b'' (Some '''') (Some ''unapproved'')
     = get_transactions (\<lambda>r. RequestError ''refused'')
        (new_client \<lparr> ynab_token = ''tok'', ynab_base_url = ''u'' \<rparr>)
        ''b'' None (Some ''unapproved'')"
proof -
  note w = empty_filter_as_absent
      [of "\<lambda>r. RequestError ''refused'' :: unit http_outcome"
          "new_client \<lparr> ynab_token = ''tok'', ynab_base_url = ''u'' \<rparr>"
          "''b''" "Some ''unapproved''" None "''a''" "[]"]
  note w9 = w [THEN conjunct2, THEN conjunct2, THEN conjunct2, THEN conjunct2,
      THEN conjunct2, THEN conjunct2, THEN conjunct2, THEN conjunct2, THEN conjunct1]
  have a: "map req_endpoint
     (snd (get_transactions_by_account (\<lambda>r. RequestError ''refused'' :: unit http_outcome)
            (new_client \<lparr> ynab_token = ''tok'', ynab_base_url = ''u'' \<rparr>)
            ''b'' ''a'' (Some '''') []))
   = [''/budgets/b/accounts/a/transactions'']"
    by (simp add: w9 client_get_def)
  from a w [THEN conjunct1] show ?thesis by (rule conjI)
qed

end
